theory Spec2Isabelle
  imports Complex_Main
begin

section \<open>Data model (types.ts)\<close>

datatype VehicleType = CAR | MOTORCYCLE

datatype ParkingStatus = FREE | OCCUPIED

datatype UserRole = ADMIN | GUEST

datatype ZoneType = Zone_default | Zone_car | Zone_moto | Zone_disabled

text \<open>
  \<^verbatim>\<open>interface ParkingSpot { id; type; status; lastUpdated? }\<close>.
  A \<^verbatim>\<open>Date\<close> is a number of milliseconds; the optional field is an option.
\<close>

record ParkingSpot =
  id_spot :: string
  type_spot :: VehicleType
  status :: ParkingStatus
  lastUpdated_spot :: "nat option"

record SpotLocation =
  x_loc :: real
  y_loc :: real

record MapZone =
  id_zone :: string
  label :: string
  x_zone :: real
  y_zone :: real
  width :: real
  height :: real
  color :: string
  type_zone :: ZoneType

text \<open>
  \<^verbatim>\<open>Record<string, SpotLocation>\<close>: a JavaScript object, kept as the association list of its
  own keys in the order JavaScript enumerates them: the array-index keys first, in ascending
  numeric order, then the other keys in insertion order; one entry per key.
\<close>

type_synonym SpotLocations = "(string \<times> SpotLocation) list"

text \<open>
  The four shared fields, as they occur both in the relay's \<^verbatim>\<open>appState\<close> (server.js, lines
  16-22) and in the \<^verbatim>\<open>useState\<close> cells of the client. \<^verbatim>\<open>mapImage\<close> is a string or
  \<^verbatim>\<open>null\<close>.
\<close>

record document =
  spots :: "ParkingSpot list"
  spotLocations :: SpotLocations
  zones :: "MapZone list"
  mapImage :: "string option"

text \<open>
  \<^verbatim>\<open>interface AppStatePayload\<close>: each key may be absent (\<open>None\<close>). A present
  \<^verbatim>\<open>mapImage\<close> is a string or \<^verbatim>\<open>null\<close> (\<open>Some None\<close>).
\<close>

record AppStatePayload =
  spots_opt :: "ParkingSpot list option"
  spotLocations_opt :: "SpotLocations option"
  zones_opt :: "MapZone list option"
  mapImage_opt :: "string option option"

datatype WSMessage =
    INIT AppStatePayload
  | UPDATE AppStatePayload
  | SYNC_INITIAL AppStatePayload

text \<open>
  JavaScript truthiness of a payload field, as tested by \<^verbatim>\<open>if (payload.f)\<close>. An absent key
  reads \<^verbatim>\<open>undefined\<close>, which is falsy. Every array and every object is truthy, the empty
  ones included. \<^verbatim>\<open>null\<close> and the empty string are falsy.
\<close>

definition truthy :: "'a option \<Rightarrow> bool" where
  "truthy v = (case v of None \<Rightarrow> False | Some a \<Rightarrow> True)"

definition truthy_mapImage :: "string option option \<Rightarrow> bool" where
  "truthy_mapImage v =
     (case v of None \<Rightarrow> False | Some None \<Rightarrow> False | Some (Some s) \<Rightarrow> s \<noteq> [])"

definition doc_of :: "'a document_scheme \<Rightarrow> document" where
  "doc_of d = \<lparr>spots = spots d, spotLocations = spotLocations d, zones = zones d,
               mapImage = mapImage d\<rparr>"

section \<open>Relay (server.js)\<close>

datatype ReadyState = CONNECTING | OPEN | CLOSING | CLOSED

text \<open>A socket object: \<open>ident\<close> stands for its identity, compared by \<^verbatim>\<open>client !== ws\<close>.\<close>

record WebSocket =
  ident :: nat
  readyState :: ReadyState

record AppState = document +
  lastUpdated :: nat

text \<open>\<open>clients\<close> is \<^verbatim>\<open>wss.clients\<close>, a set iterated in insertion order.\<close>

record Relay =
  appState :: AppState
  clients :: "WebSocket list"

text \<open>server.js, lines 43-48; \<open>now\<close> is the value of \<^verbatim>\<open>Date.now()\<close>.\<close>

definition server_UPDATE :: "nat \<Rightarrow> AppStatePayload \<Rightarrow> AppState \<Rightarrow> AppState" where
  "server_UPDATE now p a =
     (let a1 = (if truthy (spots_opt p) then a\<lparr>spots := the (spots_opt p)\<rparr> else a);
          a2 = (if truthy (spotLocations_opt p)
                then a1\<lparr>spotLocations := the (spotLocations_opt p)\<rparr> else a1);
          a3 = (if truthy (zones_opt p) then a2\<lparr>zones := the (zones_opt p)\<rparr> else a2);
          a4 = (if truthy_mapImage (mapImage_opt p)
                then a3\<lparr>mapImage := the (mapImage_opt p)\<rparr> else a3)
      in a4\<lparr>lastUpdated := now\<rparr>)"

text \<open>server.js, lines 51-58: the \<^verbatim>\<open>forEach\<close> over \<^verbatim>\<open>wss.clients\<close>; the result lists the sends.\<close>

fun broadcast :: "WebSocket \<Rightarrow> AppStatePayload \<Rightarrow> WebSocket list \<Rightarrow> (nat \<times> WSMessage) list" where
  "broadcast ws p [] = []"
| "broadcast ws p (client # rest) =
     (if ident client \<noteq> ident ws \<and> readyState client = OPEN
      then (ident client, UPDATE p) # broadcast ws p rest
      else broadcast ws p rest)"

text \<open>
  server.js, line 66: \<^verbatim>\<open>{ ...appState, ...data.payload }\<close>. Every key present in the payload
  overrides, a \<^verbatim>\<open>null\<close> \<^verbatim>\<open>mapImage\<close> too; the other keys keep the old value.
\<close>

definition spread :: "AppState \<Rightarrow> AppStatePayload \<Rightarrow> AppState" where
  "spread a p =
     a\<lparr>spots := (case spots_opt p of None \<Rightarrow> spots a | Some s \<Rightarrow> s),
       spotLocations := (case spotLocations_opt p of None \<Rightarrow> spotLocations a | Some l \<Rightarrow> l),
       zones := (case zones_opt p of None \<Rightarrow> zones a | Some z \<Rightarrow> z),
       mapImage := (case mapImage_opt p of None \<Rightarrow> mapImage a | Some m \<Rightarrow> m)\<rparr>"

text \<open>
  server.js, lines 36-72: the handler of a message received on socket \<open>ws\<close>. It returns the
  relay and the messages sent, each with the identity of the socket it is sent on. A message
  of another type changes nothing.
\<close>

fun relay_on_message :: "nat \<Rightarrow> WebSocket \<Rightarrow> WSMessage \<Rightarrow> Relay \<Rightarrow> Relay \<times> (nat \<times> WSMessage) list" where
  "relay_on_message now ws (UPDATE p) r =
     (r\<lparr>appState := server_UPDATE now p (appState r)\<rparr>, broadcast ws p (clients r))"
| "relay_on_message now ws (SYNC_INITIAL p) r =
     (if length (spots (appState r)) = 0
      then (r\<lparr>appState := spread (appState r) p\<rparr>, [])
      else (r, []))"
| "relay_on_message now ws (INIT p) r = (r, [])"

text \<open>server.js, lines 26-33: a new connection receives the whole \<^verbatim>\<open>appState\<close> as \<^verbatim>\<open>INIT\<close>.\<close>

definition payload_of :: "'a document_scheme \<Rightarrow> AppStatePayload" where
  "payload_of d = \<lparr>spots_opt = Some (spots d), spotLocations_opt = Some (spotLocations d),
                   zones_opt = Some (zones d), mapImage_opt = Some (mapImage d)\<rparr>"

definition relay_on_connection :: "WebSocket \<Rightarrow> Relay \<Rightarrow> Relay \<times> (nat \<times> WSMessage) list" where
  "relay_on_connection ws r =
     (r\<lparr>clients := clients r @ [ws]\<rparr>, [(ident ws, INIT (payload_of (appState r)))])"

section \<open>Client (App.tsx)\<close>

text \<open>
  A value kept in \<^verbatim>\<open>localStorage\<close>: the \<^verbatim>\<open>JSON.stringify\<close> of a field, or the raw string of
  the image. The serialisation is kept abstract: a stored value is the data it encodes.
\<close>

datatype Stored =
    JSON_spots "ParkingSpot list"
  | JSON_locations SpotLocations
  | JSON_zones "MapZone list"
  | Raw string

type_synonym Storage = "string \<rightharpoonup> Stored"

definition SPOTS :: string where "SPOTS = ''parking_spots''"
definition LOCATIONS :: string where "LOCATIONS = ''parking_spot_locations''"
definition ZONES :: string where "ZONES = ''parking_map_zones''"
definition IMAGE :: string where "IMAGE = ''parking_map_image_data''"

text \<open>
  The state of the \<^verbatim>\<open>App\<close> component: the four \<^verbatim>\<open>useState\<close> cells of the document,
  \<^verbatim>\<open>userRole\<close>, \<^verbatim>\<open>isConnected\<close>, \<^verbatim>\<open>socketRef.current\<close> (\<open>None\<close> for \<^verbatim>\<open>null\<close>, else the
  socket's \<^verbatim>\<open>readyState\<close>), the \<^verbatim>\<open>localStorage\<close> of the device and the messages sent to the
  relay so far. \<open>mounted\<close> holds the values of \<^verbatim>\<open>spots\<close>, \<^verbatim>\<open>spotLocations\<close>, \<^verbatim>\<open>zones\<close> and
  \<^verbatim>\<open>mapImage\<close> of the first render: the WebSocket effect has the dependency list
  \<^verbatim>\<open>[]\<close> (line 172), so it runs once and \<^verbatim>\<open>connect\<close> and \<^verbatim>\<open>ws.onmessage\<close> close over the
  variables of that render for the life of the component.
\<close>

record App = document +
  userRole :: "UserRole option"
  isConnected :: bool
  socketRef :: "ReadyState option"
  localStorage :: Storage
  sent :: "WSMessage list"
  mounted :: document

definition isGuest :: "App \<Rightarrow> bool" where
  "isGuest st = (userRole st = Some GUEST)"

text \<open>App.tsx, lines 143-146.\<close>

definition client_UPDATE :: "AppStatePayload \<Rightarrow> App \<Rightarrow> App" where
  "client_UPDATE p st =
     (let s1 = (if truthy (spots_opt p) then st\<lparr>spots := the (spots_opt p)\<rparr> else st);
          s2 = (if truthy (spotLocations_opt p)
                then s1\<lparr>spotLocations := the (spotLocations_opt p)\<rparr> else s1);
          s3 = (if truthy (zones_opt p) then s2\<lparr>zones := the (zones_opt p)\<rparr> else s2)
      in (if truthy_mapImage (mapImage_opt p)
          then s3\<lparr>mapImage := the (mapImage_opt p)\<rparr> else s3))"

text \<open>
  App.tsx, lines 116-151: \<^verbatim>\<open>ws.onmessage\<close>. The payload of the \<^verbatim>\<open>SYNC_INITIAL\<close> message is
  built from the variables \<^verbatim>\<open>spots\<close>, \<^verbatim>\<open>spotLocations\<close>, \<^verbatim>\<open>zones\<close>, \<^verbatim>\<open>mapImage\<close> of the
  closure, which are those of \<open>mounted\<close>.
\<close>

fun ws_onmessage :: "WSMessage \<Rightarrow> App \<Rightarrow> App" where
  "ws_onmessage (INIT p) st =
     (if truthy (spots_opt p) \<and> length (the (spots_opt p)) > 0
      then
        (let s1 = st\<lparr>spots := the (spots_opt p)\<rparr>;
             s2 = (if truthy (spotLocations_opt p)
                   then s1\<lparr>spotLocations := the (spotLocations_opt p)\<rparr> else s1);
             s3 = (if truthy (zones_opt p) then s2\<lparr>zones := the (zones_opt p)\<rparr> else s2)
         in (if truthy_mapImage (mapImage_opt p)
             then s3\<lparr>mapImage := the (mapImage_opt p)\<rparr> else s3))
      else
        st\<lparr>sent := sent st @
             [SYNC_INITIAL \<lparr>spots_opt = Some (spots (mounted st)),
                            spotLocations_opt = Some (spotLocations (mounted st)),
                            zones_opt = Some (zones (mounted st)),
                            mapImage_opt = Some (mapImage (mounted st))\<rparr>]\<rparr>)"
| "ws_onmessage (UPDATE p) st = client_UPDATE p st"
| "ws_onmessage (SYNC_INITIAL p) st = st"

text \<open>App.tsx, lines 110-114 and 153-159. The reconnection timer is not part of the state.\<close>

definition ws_onopen :: "App \<Rightarrow> App" where
  "ws_onopen st = st\<lparr>isConnected := True, socketRef := Some OPEN\<rparr>"

definition ws_onclose :: "App \<Rightarrow> App" where
  "ws_onclose st = st\<lparr>isConnected := False, socketRef := None\<rparr>"

text \<open>App.tsx, lines 175-182.\<close>

definition broadcastUpdate :: "AppStatePayload \<Rightarrow> App \<Rightarrow> App" where
  "broadcastUpdate payload st =
     (if socketRef st = Some OPEN then st\<lparr>sent := sent st @ [UPDATE payload]\<rparr> else st)"

text \<open>
  \<^verbatim>\<open>localStorage.setItem\<close> throws when the quota is exceeded: the result is \<open>None\<close> then.
  Which writes fit is decided by the browser; it is the parameter \<open>quota\<close>.
\<close>

definition setItem :: "(string \<Rightarrow> Stored \<Rightarrow> bool) \<Rightarrow> string \<Rightarrow> Stored \<Rightarrow> Storage \<Rightarrow> Storage option" where
  "setItem quota k v ls = (if quota k v then Some (ls(k \<mapsto> v)) else None)"

text \<open>
  App.tsx, lines 72-91: the initial values of the \<^verbatim>\<open>useState\<close> cells, read from
  \<^verbatim>\<open>localStorage\<close>. \<open>generated\<close> is the result of \<^verbatim>\<open>generateSpots()\<close>.
\<close>

definition loadSpots :: "Storage \<Rightarrow> ParkingSpot list \<Rightarrow> ParkingSpot list" where
  "loadSpots ls fallback = (case ls SPOTS of Some (JSON_spots s) \<Rightarrow> s | _ \<Rightarrow> fallback)"

definition loadLocations :: "Storage \<Rightarrow> SpotLocations \<Rightarrow> SpotLocations" where
  "loadLocations ls fallback = (case ls LOCATIONS of Some (JSON_locations l) \<Rightarrow> l | _ \<Rightarrow> fallback)"

definition loadZones :: "Storage \<Rightarrow> MapZone list \<Rightarrow> MapZone list" where
  "loadZones ls fallback = (case ls ZONES of Some (JSON_zones z) \<Rightarrow> z | _ \<Rightarrow> fallback)"

definition loadImage :: "Storage \<Rightarrow> string option" where
  "loadImage ls = (case ls IMAGE of Some (Raw s) \<Rightarrow> Some s | _ \<Rightarrow> None)"

text \<open>
  The first render of \<^verbatim>\<open>App\<close>: the cells get their initial values and the WebSocket effect
  closes over them.
\<close>

definition mount :: "ParkingSpot list \<Rightarrow> Storage \<Rightarrow> App" where
  "mount generated ls =
     (let d = \<lparr>spots = loadSpots ls generated, spotLocations = loadLocations ls [],
               zones = loadZones ls [], mapImage = loadImage ls\<rparr>
      in \<lparr>spots = spots d, spotLocations = spotLocations d, zones = zones d,
          mapImage = mapImage d, userRole = None, isConnected = False, socketRef = None,
          localStorage = ls, sent = [], mounted = d\<rparr>)"

text \<open>\<^verbatim>\<open>onLogin={setUserRole}\<close>, App.tsx, line 366.\<close>

definition setUserRole :: "UserRole \<Rightarrow> App \<Rightarrow> App" where
  "setUserRole role st = st\<lparr>userRole := Some role\<rparr>"

text \<open>
  App.tsx, lines 209-211: the effect that runs after every render in which \<^verbatim>\<open>spots\<close> has
  changed. It has no \<^verbatim>\<open>try\<close>: a failed write is the result \<open>None\<close>.
\<close>

definition spotsEffect :: "(string \<Rightarrow> Stored \<Rightarrow> bool) \<Rightarrow> App \<Rightarrow> App option" where
  "spotsEffect quota st =
     (case setItem quota SPOTS (JSON_spots (spots st)) (localStorage st) of
        None \<Rightarrow> None
      | Some ls \<Rightarrow> Some (st\<lparr>localStorage := ls\<rparr>))"

text \<open>App.tsx, lines 240-256; \<open>now\<close> is the value of \<^verbatim>\<open>new Date()\<close>.\<close>

definition handleToggleSpot :: "nat \<Rightarrow> string \<Rightarrow> App \<Rightarrow> App" where
  "handleToggleSpot now i st =
     (if isGuest st then st
      else
        (let newSpots =
               map (\<lambda>spot. if id_spot spot = i
                            then spot\<lparr>status := (if status spot = FREE then OCCUPIED else FREE),
                                      lastUpdated_spot := Some now\<rparr>
                            else spot) (spots st)
         in broadcastUpdate \<lparr>spots_opt = Some newSpots, spotLocations_opt = None,
                              zones_opt = None, mapImage_opt = None\<rparr>
              (st\<lparr>spots := newSpots\<rparr>)))"

text \<open>
  App.tsx, lines 279-295, from the moment \<^verbatim>\<open>reader.onloadend\<close> delivers the file as
  \<open>base64String\<close>. The guest check is made when the handler is called. A write that throws
  is caught: nothing is set or sent.
\<close>

definition handleImageUpload :: "(string \<Rightarrow> Stored \<Rightarrow> bool) \<Rightarrow> string \<Rightarrow> App \<Rightarrow> App" where
  "handleImageUpload quota base64String st =
     (if isGuest st then st
      else
        (case setItem quota IMAGE (Raw base64String) (localStorage st) of
           None \<Rightarrow> st
         | Some ls \<Rightarrow>
             broadcastUpdate \<lparr>spots_opt = None, spotLocations_opt = None, zones_opt = None,
                               mapImage_opt = Some (Some base64String)\<rparr>
               (st\<lparr>localStorage := ls, mapImage := Some base64String\<rparr>)))"

text \<open>\<^verbatim>\<open>delete newLocations[id]\<close> on a copy of the object: the own key \<open>k\<close>, if any, goes.\<close>

fun delete_key :: "string \<Rightarrow> SpotLocations \<Rightarrow> SpotLocations" where
  "delete_key k [] = []"
| "delete_key k ((k', v) # rest) = (if k' = k then rest else (k', v) # delete_key k rest)"

text \<open>
  An array index is a key that is the decimal numeral, without leading zeros, of a number up
  to \<open>2\<^sup>3\<^sup>2 - 2\<close>.
\<close>

fun position_in :: "char \<Rightarrow> string \<Rightarrow> nat \<Rightarrow> nat option" where
  "position_in c [] n = None"
| "position_in c (d # ds) n = (if c = d then Some n else position_in c ds (Suc n))"

definition digit_of :: "char \<Rightarrow> nat option" where
  "digit_of c = position_in c ''0123456789'' 0"

fun digits_value :: "nat \<Rightarrow> string \<Rightarrow> nat option" where
  "digits_value acc [] = Some acc"
| "digits_value acc (c # cs) =
     (case digit_of c of None \<Rightarrow> None | Some d \<Rightarrow> digits_value (10 * acc + d) cs)"

definition array_index :: "string \<Rightarrow> nat option" where
  "array_index k =
     (case k of
        [] \<Rightarrow> None
      | c # cs \<Rightarrow>
          if c = CHR ''0'' \<and> cs \<noteq> [] then None
          else (case digits_value 0 k of
                  None \<Rightarrow> None
                | Some n \<Rightarrow> if n \<le> 4294967294 then Some n else None))"

text \<open>A new array-index key \<open>k\<close> of value \<open>n\<close> goes before the first key that is not a smaller index.\<close>

fun insert_index :: "nat \<Rightarrow> string \<Rightarrow> SpotLocation \<Rightarrow> SpotLocations \<Rightarrow> SpotLocations" where
  "insert_index n k v [] = [(k, v)]"
| "insert_index n k v ((k', v') # rest) =
     (case array_index k' of
        None \<Rightarrow> (k, v) # (k', v') # rest
      | Some m \<Rightarrow>
          if m < n then (k', v') # insert_index n k v rest else (k, v) # (k', v') # rest)"

text \<open>
  \<^verbatim>\<open>newLocations[id] = location\<close> on a copy of the object, \<open>location\<close> being an object. An own
  key keeps its place and gets the value. Otherwise the key \<^verbatim>\<open>__proto__\<close> reaches the setter of
  \<^verbatim>\<open>Object.prototype\<close> and no own key is made; a new array index goes to its numeric place;
  any other new key goes last.
\<close>

definition assign_key :: "string \<Rightarrow> SpotLocation \<Rightarrow> SpotLocations \<Rightarrow> SpotLocations" where
  "assign_key k v obj =
     (if k \<in> set (map fst obj) then map (\<lambda>(k', v'). if k' = k then (k, v) else (k', v')) obj
      else if k = ''__proto__'' then obj
      else (case array_index k of
              None \<Rightarrow> obj @ [(k, v)]
            | Some n \<Rightarrow> insert_index n k v obj))"

text \<open>App.tsx, lines 297-309; a \<^verbatim>\<open>null\<close> location is \<open>None\<close>.\<close>

definition handleUpdateLocation :: "string \<Rightarrow> SpotLocation option \<Rightarrow> App \<Rightarrow> App" where
  "handleUpdateLocation i location st =
     (if isGuest st then st
      else
        (let newLocations =
               (case location of
                  None \<Rightarrow> delete_key i (spotLocations st)
                | Some l \<Rightarrow> assign_key i l (spotLocations st))
         in broadcastUpdate \<lparr>spots_opt = None, spotLocations_opt = Some newLocations,
                              zones_opt = None, mapImage_opt = None\<rparr>
              (st\<lparr>spotLocations := newLocations\<rparr>)))"

text \<open>App.tsx, lines 311-316.\<close>

definition handleAddZone :: "MapZone \<Rightarrow> App \<Rightarrow> App" where
  "handleAddZone zone st =
     (if isGuest st then st
      else
        (let newZones = zones st @ [zone]
         in broadcastUpdate \<lparr>spots_opt = None, spotLocations_opt = None,
                              zones_opt = Some newZones, mapImage_opt = None\<rparr>
              (st\<lparr>zones := newZones\<rparr>)))"

text \<open>\<^verbatim>\<open>Partial<MapZone>\<close> and the spread \<^verbatim>\<open>{ ...z, ...updates }\<close>.\<close>

record PartialMapZone =
  id_upd :: "string option"
  label_upd :: "string option"
  x_upd :: "real option"
  y_upd :: "real option"
  width_upd :: "real option"
  height_upd :: "real option"
  color_upd :: "string option"
  type_upd :: "ZoneType option"

definition spread_zone :: "MapZone \<Rightarrow> PartialMapZone \<Rightarrow> MapZone" where
  "spread_zone z u =
     \<lparr>id_zone = (case id_upd u of None \<Rightarrow> id_zone z | Some v \<Rightarrow> v),
      label = (case label_upd u of None \<Rightarrow> label z | Some v \<Rightarrow> v),
      x_zone = (case x_upd u of None \<Rightarrow> x_zone z | Some v \<Rightarrow> v),
      y_zone = (case y_upd u of None \<Rightarrow> y_zone z | Some v \<Rightarrow> v),
      width = (case width_upd u of None \<Rightarrow> width z | Some v \<Rightarrow> v),
      height = (case height_upd u of None \<Rightarrow> height z | Some v \<Rightarrow> v),
      color = (case color_upd u of None \<Rightarrow> color z | Some v \<Rightarrow> v),
      type_zone = (case type_upd u of None \<Rightarrow> type_zone z | Some v \<Rightarrow> v)\<rparr>"

text \<open>App.tsx, lines 318-323.\<close>

definition handleUpdateZone :: "string \<Rightarrow> PartialMapZone \<Rightarrow> App \<Rightarrow> App" where
  "handleUpdateZone i updates st =
     (if isGuest st then st
      else
        (let newZones = map (\<lambda>z. if id_zone z = i then spread_zone z updates else z) (zones st)
         in broadcastUpdate \<lparr>spots_opt = None, spotLocations_opt = None,
                              zones_opt = Some newZones, mapImage_opt = None\<rparr>
              (st\<lparr>zones := newZones\<rparr>)))"

text \<open>App.tsx, lines 325-330.\<close>

definition handleDeleteZone :: "string \<Rightarrow> App \<Rightarrow> App" where
  "handleDeleteZone i st =
     (if isGuest st then st
      else
        (let newZones = filter (\<lambda>z. id_zone z \<noteq> i) (zones st)
         in broadcastUpdate \<lparr>spots_opt = None, spotLocations_opt = None,
                              zones_opt = Some newZones, mapImage_opt = None\<rparr>
              (st\<lparr>zones := newZones\<rparr>)))"

text \<open>
  App.tsx, lines 334-347; the second component is the returned boolean. When the second
  write throws, the first one has already been made.
\<close>

definition handleQuickSaveLayout :: "(string \<Rightarrow> Stored \<Rightarrow> bool) \<Rightarrow> App \<Rightarrow> App \<times> bool" where
  "handleQuickSaveLayout quota st =
     (if isGuest st then (st, False)
      else
        (case setItem quota LOCATIONS (JSON_locations (spotLocations st)) (localStorage st) of
           None \<Rightarrow> (st, False)
         | Some ls1 \<Rightarrow>
             (case setItem quota ZONES (JSON_zones (zones st)) ls1 of
                None \<Rightarrow> (st\<lparr>localStorage := ls1\<rparr>, False)
              | Some ls2 \<Rightarrow>
                  (broadcastUpdate \<lparr>spots_opt = None,
                                     spotLocations_opt = Some (spotLocations st),
                                     zones_opt = Some (zones st), mapImage_opt = None\<rparr>
                     (st\<lparr>localStorage := ls2\<rparr>), True))))"

text \<open>
  geminiService.ts, \<^verbatim>\<open>simulateTrafficScenario\<close>: what the awaited call does. \<open>NoKey\<close>: it throws
  (no API key). \<open>NoAnswer\<close>: it returns its argument \<^verbatim>\<open>currentSpots\<close> itself (no response
  text, or an error that it catches). \<open>Answer statusMap now\<close>: it returns the new array
  \<^verbatim>\<open>currentSpots.map(...)\<close>, \<open>now\<close> being \<^verbatim>\<open>new Date()\<close>.
\<close>

datatype Response = NoKey | NoAnswer | Answer "string \<rightharpoonup> string" nat

definition simulated :: "(string \<rightharpoonup> string) \<Rightarrow> nat \<Rightarrow> ParkingSpot list \<Rightarrow> ParkingSpot list" where
  "simulated statusMap now currentSpots =
     map (\<lambda>spot. spot\<lparr>status := (if statusMap (id_spot spot) = Some ''OCCUPIED''
                                   then OCCUPIED else FREE),
                       lastUpdated_spot := Some now\<rparr>) currentSpots"

text \<open>
  App.tsx, lines 265-277, taken as one step from the click to the end of the handler, with
  no other event during the \<^verbatim>\<open>await\<close>. There is no guest check. With \<open>NoKey\<close> the handler
  stops at the \<^verbatim>\<open>await\<close>. With \<open>NoAnswer\<close> the cell is set to the array it already holds, and
  that array is sent.
\<close>

definition handleSimulation :: "Response \<Rightarrow> App \<Rightarrow> App" where
  "handleSimulation response st =
     (case response of
        NoKey \<Rightarrow> st
      | NoAnswer \<Rightarrow>
          broadcastUpdate \<lparr>spots_opt = Some (spots st), spotLocations_opt = None,
                            zones_opt = None, mapImage_opt = None\<rparr> st
      | Answer statusMap now \<Rightarrow>
          (let newSpots = simulated statusMap now (spots st)
           in broadcastUpdate \<lparr>spots_opt = Some newSpots, spotLocations_opt = None,
                                zones_opt = None, mapImage_opt = None\<rparr>
                (st\<lparr>spots := newSpots\<rparr>)))"

text \<open>
  A handler that lets a \<^verbatim>\<open>QuotaExceededError\<close> escape ends with \<open>Inl\<close> and the state at the
  throw: the cells set before it stay set.
\<close>

datatype error = QuotaExceededError

text \<open>
  App.tsx, lines 350-359. There is no guest check and no \<^verbatim>\<open>try\<close>: both cells are set, then
  the two writes are made, then the update is sent.
\<close>

definition handleLoadLayoutSnapshot ::
    "(string \<Rightarrow> Stored \<Rightarrow> bool) \<Rightarrow> SpotLocations \<Rightarrow> MapZone list \<Rightarrow> App \<Rightarrow> (error \<times> App) + App" where
  "handleLoadLayoutSnapshot quota locations loadedZones st =
     (let s1 = st\<lparr>spotLocations := locations, zones := loadedZones\<rparr>
      in (case setItem quota LOCATIONS (JSON_locations locations) (localStorage s1) of
            None \<Rightarrow> Inl (QuotaExceededError, s1)
          | Some ls1 \<Rightarrow>
              (case setItem quota ZONES (JSON_zones loadedZones) ls1 of
                 None \<Rightarrow> Inl (QuotaExceededError, s1\<lparr>localStorage := ls1\<rparr>)
               | Some ls2 \<Rightarrow>
                   Inr (broadcastUpdate \<lparr>spots_opt = None, spotLocations_opt = Some locations,
                                          zones_opt = Some loadedZones, mapImage_opt = None\<rparr>
                          (s1\<lparr>localStorage := ls2\<rparr>)))))"

text \<open>The local events that change or save the document: one per handler of App.tsx.\<close>

datatype Event =
    ToggleSpot nat string
  | Simulation Response
  | ImageUpload string
  | UpdateLocation string "SpotLocation option"
  | AddZone MapZone
  | UpdateZone string PartialMapZone
  | DeleteZone string
  | QuickSaveLayout
  | LoadLayoutSnapshot SpotLocations "MapZone list"

fun handler :: "(string \<Rightarrow> Stored \<Rightarrow> bool) \<Rightarrow> Event \<Rightarrow> App \<Rightarrow> (error \<times> App) + App" where
  "handler quota (ToggleSpot now i) st = Inr (handleToggleSpot now i st)"
| "handler quota (Simulation response) st = Inr (handleSimulation response st)"
| "handler quota (ImageUpload base64String) st = Inr (handleImageUpload quota base64String st)"
| "handler quota (UpdateLocation i location) st = Inr (handleUpdateLocation i location st)"
| "handler quota (AddZone zone) st = Inr (handleAddZone zone st)"
| "handler quota (UpdateZone i updates) st = Inr (handleUpdateZone i updates st)"
| "handler quota (DeleteZone i) st = Inr (handleDeleteZone i st)"
| "handler quota QuickSaveLayout st = Inr (fst (handleQuickSaveLayout quota st))"
| "handler quota (LoadLayoutSnapshot locations loadedZones) st =
     handleLoadLayoutSnapshot quota locations loadedZones st"

text \<open>
  Whether the handler calls \<^verbatim>\<open>setSpots\<close> with an array other than the one the cell holds:
  \<^verbatim>\<open>handleToggleSpot\<close> past its guest check (line 254, the array is made by \<^verbatim>\<open>spots.map\<close>) and
  \<^verbatim>\<open>handleSimulation\<close> when the call answers (line 269). React then renders again, sees the
  dependency \<^verbatim>\<open>[spots]\<close> changed and runs the effect of lines 209-211.
\<close>

fun calls_setSpots :: "Event \<Rightarrow> App \<Rightarrow> bool" where
  "calls_setSpots (ToggleSpot now i) st = (\<not> isGuest st)"
| "calls_setSpots (Simulation (Answer statusMap now)) st = True"
| "calls_setSpots ev st = False"

text \<open>
  One local event: its handler, then the effect on \<^verbatim>\<open>spots\<close> if the handler has set the cell.
  A write of the effect that throws leaves the state as the handler made it.
\<close>

definition dispatch :: "(string \<Rightarrow> Stored \<Rightarrow> bool) \<Rightarrow> Event \<Rightarrow> App \<Rightarrow> (error \<times> App) + App" where
  "dispatch quota ev st =
     (case handler quota ev st of
        Inl e \<Rightarrow> Inl e
      | Inr st' \<Rightarrow>
          if calls_setSpots ev st
          then (case spotsEffect quota st' of
                  None \<Rightarrow> Inl (QuotaExceededError, st')
                | Some st'' \<Rightarrow> Inr st'')
          else Inr st')"

text \<open>The state after an event, whether it ended with a throw or not.\<close>

definition state_after :: "(error \<times> App) + App \<Rightarrow> App" where
  "state_after res = (case res of Inl (e, st) \<Rightarrow> st | Inr st \<Rightarrow> st)"

text \<open>The events that save the layout.\<close>

fun saves_layout :: "Event \<Rightarrow> bool" where
  "saves_layout QuickSaveLayout = True"
| "saves_layout (LoadLayoutSnapshot locations loadedZones) = True"
| "saves_layout ev = False"

text \<open>
  A sequence of \<^verbatim>\<open>UPDATE\<close> messages handled by the relay, each with its time of arrival and
  the socket it came from, and the same payloads handled by a client.
\<close>

fun relay_run :: "(nat \<times> WebSocket \<times> AppStatePayload) list \<Rightarrow> Relay \<Rightarrow> Relay" where
  "relay_run [] r = r"
| "relay_run ((now, ws, p) # rest) r =
     relay_run rest (fst (relay_on_message now ws (UPDATE p) r))"

fun client_run :: "AppStatePayload list \<Rightarrow> App \<Rightarrow> App" where
  "client_run [] st = st"
| "client_run (p # rest) st = client_run rest (ws_onmessage (UPDATE p) st)"

text \<open>server.js, lines 16-22: the document at startup; \<open>now\<close> is \<^verbatim>\<open>Date.now()\<close>.\<close>

definition initial_relay :: "nat \<Rightarrow> Relay" where
  "initial_relay now =
     \<lparr>appState = \<lparr>spots = [], spotLocations = [], zones = [], mapImage = None,
                   lastUpdated = now\<rparr>,
      clients = []\<rparr>"

subsection \<open>Concrete values used to instantiate the theorems\<close>

definition spot_C01 :: ParkingSpot where
  "spot_C01 = \<lparr>id_spot = ''C-01'', type_spot = CAR, status = FREE, lastUpdated_spot = None\<rparr>"

definition spot_M01 :: ParkingSpot where
  "spot_M01 = \<lparr>id_spot = ''M-01'', type_spot = MOTORCYCLE, status = OCCUPIED,
               lastUpdated_spot = Some 5\<rparr>"

definition zone_A :: MapZone where
  "zone_A = \<lparr>id_zone = ''zone-a'', label = ''North'', x_zone = 10, y_zone = 20, width = 30,
             height = 40, color = ''emerald'', type_zone = Zone_car\<rparr>"

definition doc_local :: document where
  "doc_local = \<lparr>spots = [spot_C01], spotLocations = [], zones = [],
                mapImage = Some ''data:image/png;base64,AAAA''\<rparr>"

definition app_admin :: App where
  "app_admin =
     \<lparr>spots = [spot_C01], spotLocations = [], zones = [],
      mapImage = Some ''data:image/png;base64,AAAA'', userRole = Some ADMIN,
      isConnected = False, socketRef = None, localStorage = Map.empty, sent = [],
      mounted = doc_local\<rparr>"

definition app_guest :: App where
  "app_guest = app_admin\<lparr>userRole := Some GUEST, isConnected := True, socketRef := Some OPEN\<rparr>"

definition payload_spots :: "ParkingSpot list \<Rightarrow> AppStatePayload" where
  "payload_spots S = \<lparr>spots_opt = Some S, spotLocations_opt = None, zones_opt = None,
                      mapImage_opt = None\<rparr>"

definition payload_zones :: "MapZone list \<Rightarrow> AppStatePayload" where
  "payload_zones Z = \<lparr>spots_opt = None, spotLocations_opt = None, zones_opt = Some Z,
                      mapImage_opt = None\<rparr>"

definition sock :: "nat \<Rightarrow> WebSocket" where
  "sock n = \<lparr>ident = n, readyState = OPEN\<rparr>"

definition payload_null_image :: AppStatePayload where
  "payload_null_image = \<lparr>spots_opt = None, spotLocations_opt = None, zones_opt = None,
                          mapImage_opt = Some None\<rparr>"

text \<open>The relay after the first client has seeded it with \<open>doc_local\<close>.\<close>

definition relay_seeded :: Relay where
  "relay_seeded =
     fst (relay_on_message 1 (sock 1) (SYNC_INITIAL (payload_of doc_local)) (initial_relay 0))"

text \<open>A relay that got its spots from an \<^verbatim>\<open>UPDATE\<close> and has no image.\<close>

definition relay_no_image :: Relay where
  "relay_no_image =
     fst (relay_on_message 1 (sock 1) (UPDATE (payload_spots [spot_M01])) (initial_relay 0))"

text \<open>A local document with no spots, as read from a storage that holds an empty list.\<close>

definition doc_no_spots :: document where
  "doc_no_spots = \<lparr>spots = [], spotLocations = [], zones = [zone_A], mapImage = None\<rparr>"

text \<open>
  A client that mounts with one free spot, logs in as administrator, toggles the spot while
  no connection is open, and then sees its socket open.
\<close>

definition app_toggled_offline :: App where
  "app_toggled_offline =
     ws_onopen (handleToggleSpot 7 ''C-01'' (setUserRole ADMIN (mount [spot_C01] Map.empty)))"

definition three_clients :: Relay where
  "three_clients = (initial_relay 0)\<lparr>clients := [sock 1, sock 2, sock 3]\<rparr>"

definition no_updates :: PartialMapZone where
  "no_updates = \<lparr>id_upd = None, label_upd = None, x_upd = None, y_upd = None,
                  width_upd = None, height_upd = None, color_upd = None, type_upd = None\<rparr>"

section \<open>Partial merge\<close>

lemma truthy_Some [simp]: "truthy (Some a)"
  by (simp add: truthy_def)

lemma truthy_None [simp]: "\<not> truthy None"
  by (simp add: truthy_def)

lemma truthy_mapImage_simps [simp]:
  "\<not> truthy_mapImage None"
  "\<not> truthy_mapImage (Some None)"
  "truthy_mapImage (Some (Some s)) = (s \<noteq> [])"
  by (simp_all add: truthy_mapImage_def)

lemma merge_step:
  "doc_of a = doc_of st \<Longrightarrow> doc_of (server_UPDATE now p a) = doc_of (client_UPDATE p st)"
  by (simp add: doc_of_def server_UPDATE_def client_UPDATE_def Let_def)

text \<open>
  C8. Applying an \<^verbatim>\<open>UPDATE\<close> payload twice gives the same document as applying it once: in
  the client the whole state is the same; in the relay the whole \<^verbatim>\<open>appState\<close> is the same
  as after the one application made at the time of the second.
\<close>

theorem update_idempotent:
  "ws_onmessage (UPDATE p) (ws_onmessage (UPDATE p) st) = ws_onmessage (UPDATE p) st \<and>
   appState (fst (relay_on_message now ws (UPDATE p)
                    (fst (relay_on_message now' ws' (UPDATE p) r)))) =
   appState (fst (relay_on_message now ws (UPDATE p) r))"
  by (simp add: client_UPDATE_def server_UPDATE_def Let_def)

theorem update_idempotent_witness:
  "ws_onmessage (UPDATE (payload_of doc_local))
     (ws_onmessage (UPDATE (payload_of doc_local)) app_guest) =
   ws_onmessage (UPDATE (payload_of doc_local)) app_guest \<and>
   appState (fst (relay_on_message 9 (sock 1) (UPDATE (payload_of doc_local))
                    (fst (relay_on_message 7 (sock 2) (UPDATE (payload_of doc_local))
                            (initial_relay 0))))) =
   appState (fst (relay_on_message 9 (sock 1) (UPDATE (payload_of doc_local))
                    (initial_relay 0)))"
  by (rule update_idempotent)

text \<open>
  C9. Applying \<^verbatim>\<open>{spots: S}\<close> and then \<^verbatim>\<open>{zones: Z}\<close> gives the document with \<^verbatim>\<open>spots = S\<close>,
  \<^verbatim>\<open>zones = Z\<close> and everything else as before, and so does the opposite order; in the relay
  \<^verbatim>\<open>lastUpdated\<close> is the time of the second message.
\<close>

theorem field_independence:
  "client_UPDATE (payload_zones Z) (client_UPDATE (payload_spots S) st) =
     st\<lparr>spots := S, zones := Z\<rparr> \<and>
   client_UPDATE (payload_spots S) (client_UPDATE (payload_zones Z) st) =
     st\<lparr>spots := S, zones := Z\<rparr> \<and>
   server_UPDATE n2 (payload_zones Z) (server_UPDATE n1 (payload_spots S) a) =
     a\<lparr>spots := S, zones := Z, lastUpdated := n2\<rparr> \<and>
   server_UPDATE n2 (payload_spots S) (server_UPDATE n1 (payload_zones Z) a) =
     a\<lparr>spots := S, zones := Z, lastUpdated := n2\<rparr>"
proof -
  have c: "client_UPDATE (payload_zones Z) (client_UPDATE (payload_spots S) st) =
             st\<lparr>spots := S, zones := Z\<rparr>"
          "client_UPDATE (payload_spots S) (client_UPDATE (payload_zones Z) st) =
             st\<lparr>spots := S, zones := Z\<rparr>"
    by (cases st, simp add: client_UPDATE_def payload_spots_def payload_zones_def Let_def)+
  have s: "server_UPDATE n2 (payload_zones Z) (server_UPDATE n1 (payload_spots S) a) =
             a\<lparr>spots := S, zones := Z, lastUpdated := n2\<rparr>"
          "server_UPDATE n2 (payload_spots S) (server_UPDATE n1 (payload_zones Z) a) =
             a\<lparr>spots := S, zones := Z, lastUpdated := n2\<rparr>"
    by (cases a, simp add: server_UPDATE_def payload_spots_def payload_zones_def Let_def)+
  from c s show ?thesis by simp
qed

theorem field_independence_witness:
  "client_UPDATE (payload_zones [zone_A]) (client_UPDATE (payload_spots [spot_M01]) app_admin) =
     app_admin\<lparr>spots := [spot_M01], zones := [zone_A]\<rparr> \<and>
   client_UPDATE (payload_spots [spot_M01]) (client_UPDATE (payload_zones [zone_A]) app_admin) =
     app_admin\<lparr>spots := [spot_M01], zones := [zone_A]\<rparr> \<and>
   server_UPDATE 2 (payload_zones [zone_A])
     (server_UPDATE 1 (payload_spots [spot_M01]) (appState (initial_relay 0))) =
     (appState (initial_relay 0))\<lparr>spots := [spot_M01], zones := [zone_A], lastUpdated := 2\<rparr> \<and>
   server_UPDATE 2 (payload_spots [spot_M01])
     (server_UPDATE 1 (payload_zones [zone_A]) (appState (initial_relay 0))) =
     (appState (initial_relay 0))\<lparr>spots := [spot_M01], zones := [zone_A], lastUpdated := 2\<rparr>"
  by (rule field_independence)

text \<open>
  C6. From states that agree on the four shared fields, the relay and a client that handle
  the same sequence of \<^verbatim>\<open>UPDATE\<close> payloads end with the same \<^verbatim>\<open>spots\<close>, \<^verbatim>\<open>spotLocations\<close>,
  \<^verbatim>\<open>zones\<close> and \<^verbatim>\<open>mapImage\<close>.
\<close>

theorem client_mirrors_relay:
  "doc_of (appState r) = doc_of st \<Longrightarrow>
   doc_of (appState (relay_run ms r)) = doc_of (client_run (map (\<lambda>(now, ws, p). p) ms) st)"
proof (induction ms arbitrary: r st)
  case Nil
  then show ?case by simp
next
  case (Cons m ms)
  obtain now ws p where m: "m = (now, ws, p)" by (cases m)
  have "doc_of (appState (fst (relay_on_message now ws (UPDATE p) r))) =
        doc_of (ws_onmessage (UPDATE p) st)"
    using Cons.prems by (simp add: merge_step)
  from Cons.IH [OF this] show ?case by (simp add: m)
qed

theorem client_mirrors_relay_witness:
  "doc_of (appState (fst (relay_on_message 1 (sock 1) (SYNC_INITIAL (payload_of doc_local))
                            (initial_relay 0)))) = doc_of app_admin \<and>
   doc_of (appState (relay_run [(2, sock 1, payload_spots [spot_M01]),
                                (3, sock 2, payload_zones [zone_A])]
                       (fst (relay_on_message 1 (sock 1) (SYNC_INITIAL (payload_of doc_local))
                               (initial_relay 0))))) =
   doc_of (client_run [payload_spots [spot_M01], payload_zones [zone_A]] app_admin)"
proof -
  have h: "doc_of (appState (fst (relay_on_message 1 (sock 1)
                     (SYNC_INITIAL (payload_of doc_local)) (initial_relay 0)))) =
           doc_of app_admin"
    by (simp add: doc_of_def initial_relay_def spread_def payload_of_def doc_local_def
          app_admin_def)
  from h client_mirrors_relay [OF h,
      of "[(2, sock 1, payload_spots [spot_M01]), (3, sock 2, payload_zones [zone_A])]"]
  show ?thesis by simp
qed

section \<open>Guests\<close>

text \<open>
  C10. For the role \<^verbatim>\<open>GUEST\<close> each mutating handler returns the state as it was: the four
  fields, the storage and the messages sent are the same.
\<close>

theorem guest_handlers_inert:
  "isGuest st \<Longrightarrow>
   handleToggleSpot now i st = st \<and>
   handleUpdateLocation i location st = st \<and>
   handleAddZone zone st = st \<and>
   handleUpdateZone i updates st = st \<and>
   handleDeleteZone i st = st \<and>
   handleImageUpload quota base64String st = st \<and>
   handleQuickSaveLayout quota st = (st, False)"
  by (simp add: handleToggleSpot_def handleUpdateLocation_def handleAddZone_def
        handleUpdateZone_def handleDeleteZone_def handleImageUpload_def
        handleQuickSaveLayout_def)

theorem guest_handlers_inert_witness:
  "isGuest app_guest \<and>
   handleToggleSpot 7 ''C-01'' app_guest = app_guest \<and>
   handleUpdateLocation ''C-01'' (Some \<lparr>x_loc = 50, y_loc = 50\<rparr>) app_guest = app_guest \<and>
   handleAddZone zone_A app_guest = app_guest \<and>
   handleUpdateZone ''zone-a'' \<lparr>id_upd = None, label_upd = Some ''South'', x_upd = None,
      y_upd = None, width_upd = None, height_upd = None, color_upd = None,
      type_upd = None\<rparr> app_guest = app_guest \<and>
   handleDeleteZone ''zone-a'' app_guest = app_guest \<and>
   handleImageUpload (\<lambda>k v. True) ''data:image/png;base64,BBBB'' app_guest = app_guest \<and>
   handleQuickSaveLayout (\<lambda>k v. True) app_guest = (app_guest, False)"
proof -
  have h: "isGuest app_guest"
    by (simp add: isGuest_def app_guest_def)
  from h guest_handlers_inert [OF h] show ?thesis by simp
qed

section \<open>Fan-out of an update\<close>

lemma broadcast_filter:
  "broadcast ws p cs =
   map (\<lambda>c. (ident c, UPDATE p)) (filter (\<lambda>c. ident c \<noteq> ident ws \<and> readyState c = OPEN) cs)"
  by (induction cs) simp_all

lemma filter_same_ident:
  "distinct (map ident cs) \<Longrightarrow> ws \<in> set cs \<Longrightarrow> length (filter (\<lambda>c. ident c \<noteq> ident ws) cs) = length cs - 1"
proof (induction cs)
  case Nil
  then show ?case by simp
next
  case (Cons c cs)
  show ?case
  proof (cases "c = ws")
    case True
    with Cons.prems have "ident ws \<notin> ident ` set cs" by simp
    then have "\<forall>d \<in> set cs. ident d \<noteq> ident ws" by (metis imageI)
    then have "filter (\<lambda>c. ident c \<noteq> ident ws) cs = cs" by (simp add: filter_id_conv)
    with True show ?thesis by simp
  next
    case False
    with Cons.prems have in_cs: "ws \<in> set cs" and d: "distinct (map ident cs)" by auto
    with Cons.prems have "ident c \<noteq> ident ws" by auto
    moreover from in_cs have "length cs > 0" by (cases cs) auto
    ultimately show ?thesis using Cons.IH [OF d in_cs] by simp
  qed
qed

text \<open>
  C7. An \<^verbatim>\<open>UPDATE\<close> received from peer \<open>ws\<close> is sent, with the received payload, to the open
  peers other than \<open>ws\<close> and to nobody else, never to \<open>ws\<close>; when the \<open>N\<close> peers of
  \<^verbatim>\<open>wss.clients\<close> are all open and \<open>ws\<close> is one of them, these are \<open>N - 1\<close> sends, one to
  each other peer.
\<close>

theorem relay_update_fanout:
  "snd (relay_on_message now ws (UPDATE p) r) =
     map (\<lambda>c. (ident c, UPDATE p))
       (filter (\<lambda>c. ident c \<noteq> ident ws \<and> readyState c = OPEN) (clients r)) \<and>
   ident ws \<notin> fst ` set (snd (relay_on_message now ws (UPDATE p) r)) \<and>
   (distinct (map ident (clients r)) \<and> ws \<in> set (clients r) \<and>
    (\<forall>c \<in> set (clients r). readyState c = OPEN) \<longrightarrow>
      length (snd (relay_on_message now ws (UPDATE p) r)) = length (clients r) - 1 \<and>
      distinct (map fst (snd (relay_on_message now ws (UPDATE p) r))) \<and>
      fst ` set (snd (relay_on_message now ws (UPDATE p) r)) =
        ident ` set (clients r) - {ident ws})"
proof -
  let ?out = "snd (relay_on_message now ws (UPDATE p) r)"
  have out: "?out = map (\<lambda>c. (ident c, UPDATE p))
       (filter (\<lambda>c. ident c \<noteq> ident ws \<and> readyState c = OPEN) (clients r))"
    by (simp add: broadcast_filter)
  have noecho: "ident ws \<notin> fst ` set ?out"
    unfolding out by auto
  have full: "length ?out = length (clients r) - 1 \<and> distinct (map fst ?out) \<and>
      fst ` set ?out = ident ` set (clients r) - {ident ws}"
    if d: "distinct (map ident (clients r))" and m: "ws \<in> set (clients r)"
      and o: "\<forall>c \<in> set (clients r). readyState c = OPEN"
  proof -
    from o have f: "filter (\<lambda>c. ident c \<noteq> ident ws \<and> readyState c = OPEN) (clients r) =
        filter (\<lambda>c. ident c \<noteq> ident ws) (clients r)"
      by (auto intro: filter_cong)
    have 1: "length ?out = length (clients r) - 1"
      unfolding out f using filter_same_ident [OF d m] by simp
    have mf: "map fst ?out = map ident (filter (\<lambda>c. ident c \<noteq> ident ws) (clients r))"
      unfolding out f by (simp add: comp_def)
    have 2: "distinct (map fst ?out)"
      unfolding mf using d by (simp add: distinct_map_filter)
    have 3: "fst ` set ?out = ident ` set (clients r) - {ident ws}"
      unfolding out f by force
    from 1 2 3 show ?thesis by simp
  qed
  from out noecho full show ?thesis by blast
qed

theorem relay_update_fanout_witness:
  "distinct (map ident (clients three_clients)) \<and> sock 2 \<in> set (clients three_clients) \<and>
   map readyState (clients three_clients) = [OPEN, OPEN, OPEN] \<and>
   snd (relay_on_message 4 (sock 2) (UPDATE (payload_spots [spot_M01])) three_clients) =
     [(1, UPDATE (payload_spots [spot_M01])), (3, UPDATE (payload_spots [spot_M01]))] \<and>
   length (snd (relay_on_message 4 (sock 2) (UPDATE (payload_spots [spot_M01])) three_clients)) =
     length (clients three_clients) - 1"
proof -
  have h: "distinct (map ident (clients three_clients)) \<and> sock 2 \<in> set (clients three_clients) \<and>
    (\<forall>c \<in> set (clients three_clients). readyState c = OPEN)"
    by (simp add: three_clients_def sock_def)
  from h relay_update_fanout [of 4 "sock 2" "payload_spots [spot_M01]" three_clients]
  show ?thesis by (simp add: three_clients_def sock_def)
qed

section \<open>Null and empty images\<close>

text \<open>
  An \<^verbatim>\<open>UPDATE\<close> whose payload has \<^verbatim>\<open>mapImage: null\<close> does not clear the image, neither in the
  client nor in the relay.
\<close>

theorem update_null_mapImage_counterexample:
  "mapImage_opt payload_null_image = Some None \<and>
   mapImage (ws_onmessage (UPDATE payload_null_image) app_admin) \<noteq> None \<and>
   mapImage (appState (fst (relay_on_message 2 (sock 1) (UPDATE payload_null_image) relay_seeded)))
     \<noteq> None"
  by (simp add: payload_null_image_def client_UPDATE_def server_UPDATE_def app_admin_def
        relay_seeded_def initial_relay_def spread_def payload_of_def doc_local_def)

text \<open>
  C1, as the code has it. After an \<^verbatim>\<open>UPDATE\<close> with payload \<open>p\<close>, in the client and in the
  relay alike: \<^verbatim>\<open>spots\<close>, \<^verbatim>\<open>spotLocations\<close> and \<^verbatim>\<open>zones\<close> are the payload's when the key is
  present and the old ones when it is absent; \<^verbatim>\<open>mapImage\<close> is the payload's when that is a
  non-empty string, and the old one when the key is absent, \<^verbatim>\<open>null\<close> or the empty string.
\<close>

theorem update_replaces_truthy_fields:
  "spots (ws_onmessage (UPDATE p) st) = (case spots_opt p of None \<Rightarrow> spots st | Some s \<Rightarrow> s) \<and>
   spotLocations (ws_onmessage (UPDATE p) st) =
     (case spotLocations_opt p of None \<Rightarrow> spotLocations st | Some l \<Rightarrow> l) \<and>
   zones (ws_onmessage (UPDATE p) st) = (case zones_opt p of None \<Rightarrow> zones st | Some z \<Rightarrow> z) \<and>
   mapImage (ws_onmessage (UPDATE p) st) =
     (case mapImage_opt p of
        None \<Rightarrow> mapImage st
      | Some None \<Rightarrow> mapImage st
      | Some (Some s) \<Rightarrow> if s = [] then mapImage st else Some s) \<and>
   spots (appState (fst (relay_on_message now ws (UPDATE p) r))) =
     (case spots_opt p of None \<Rightarrow> spots (appState r) | Some s \<Rightarrow> s) \<and>
   spotLocations (appState (fst (relay_on_message now ws (UPDATE p) r))) =
     (case spotLocations_opt p of None \<Rightarrow> spotLocations (appState r) | Some l \<Rightarrow> l) \<and>
   zones (appState (fst (relay_on_message now ws (UPDATE p) r))) =
     (case zones_opt p of None \<Rightarrow> zones (appState r) | Some z \<Rightarrow> z) \<and>
   mapImage (appState (fst (relay_on_message now ws (UPDATE p) r))) =
     (case mapImage_opt p of
        None \<Rightarrow> mapImage (appState r)
      | Some None \<Rightarrow> mapImage (appState r)
      | Some (Some s) \<Rightarrow> if s = [] then mapImage (appState r) else Some s)"
  by (simp add: client_UPDATE_def server_UPDATE_def Let_def split: option.splits)

theorem update_replaces_truthy_fields_witness:
  "mapImage (ws_onmessage (UPDATE (payload_of doc_no_spots)) app_admin) =
     Some ''data:image/png;base64,AAAA'' \<and>
   spots (ws_onmessage (UPDATE (payload_of doc_no_spots)) app_admin) = [] \<and>
   zones (ws_onmessage (UPDATE (payload_of doc_no_spots)) app_admin) = [zone_A] \<and>
   mapImage (appState (fst (relay_on_message 2 (sock 1) (UPDATE (payload_of doc_no_spots))
       relay_seeded))) = Some ''data:image/png;base64,AAAA'' \<and>
   spots (appState (fst (relay_on_message 2 (sock 1) (UPDATE (payload_of doc_no_spots))
       relay_seeded))) = []"
  using update_replaces_truthy_fields [of "payload_of doc_no_spots" app_admin 2 "sock 1" relay_seeded]
  by (simp add: payload_of_def doc_no_spots_def app_admin_def relay_seeded_def initial_relay_def
        spread_def doc_local_def)

text \<open>
  A relay with spots and no image sends its \<^verbatim>\<open>INIT\<close>; the client keeps the image it had, so
  its \<^verbatim>\<open>mapImage\<close> differs from the relay's.
\<close>

theorem init_null_mapImage_counterexample:
  "spots (appState relay_no_image) \<noteq> [] \<and>
   snd (relay_on_connection (sock 3) relay_no_image) =
     [(3, INIT (payload_of (appState relay_no_image)))] \<and>
   mapImage (ws_onmessage (INIT (payload_of (appState relay_no_image))) app_admin) \<noteq>
     mapImage (appState relay_no_image)"
  by (simp add: relay_no_image_def relay_on_connection_def initial_relay_def server_UPDATE_def
        payload_spots_def payload_of_def app_admin_def sock_def)

text \<open>
  C2, as the code has it. When the relay's \<^verbatim>\<open>spots\<close> is non-empty and a client handles the
  \<^verbatim>\<open>INIT\<close> the relay sends on connection, the client's \<^verbatim>\<open>spots\<close>, \<^verbatim>\<open>spotLocations\<close> and
  \<^verbatim>\<open>zones\<close> become the relay's, whatever they were; its \<^verbatim>\<open>mapImage\<close> becomes the relay's
  when that is a non-empty string and stays as it was when the relay's is \<^verbatim>\<open>null\<close> or
  empty. Nothing is sent.
\<close>

theorem init_adopts_relay_document:
  "spots (appState r) \<noteq> [] \<Longrightarrow> snd (relay_on_connection ws r) = [(i, msg)] \<Longrightarrow>
   spots (ws_onmessage msg st) = spots (appState r) \<and>
   spotLocations (ws_onmessage msg st) = spotLocations (appState r) \<and>
   zones (ws_onmessage msg st) = zones (appState r) \<and>
   mapImage (ws_onmessage msg st) =
     (case mapImage (appState r) of
        None \<Rightarrow> mapImage st
      | Some s \<Rightarrow> if s = [] then mapImage st else Some s) \<and>
   sent (ws_onmessage msg st) = sent st"
  by (auto simp add: relay_on_connection_def payload_of_def Let_def split: option.splits)

theorem init_adopts_relay_document_witness:
  "spots (appState relay_no_image) \<noteq> [] \<and>
   snd (relay_on_connection (sock 3) relay_no_image) =
     [(3, INIT (payload_of (appState relay_no_image)))] \<and>
   spots (ws_onmessage (INIT (payload_of (appState relay_no_image))) app_admin) = [spot_M01] \<and>
   spotLocations (ws_onmessage (INIT (payload_of (appState relay_no_image))) app_admin) = [] \<and>
   zones (ws_onmessage (INIT (payload_of (appState relay_no_image))) app_admin) = [] \<and>
   mapImage (ws_onmessage (INIT (payload_of (appState relay_no_image))) app_admin) =
     Some ''data:image/png;base64,AAAA''"
proof -
  have v: "appState relay_no_image =
     \<lparr>spots = [spot_M01], spotLocations = [], zones = [], mapImage = None, lastUpdated = 1\<rparr>"
    by (simp add: relay_no_image_def initial_relay_def server_UPDATE_def payload_spots_def)
  have h1: "spots (appState relay_no_image) \<noteq> []"
    by (simp add: v)
  have h2: "snd (relay_on_connection (sock 3) relay_no_image) =
     [(3, INIT (payload_of (appState relay_no_image)))]"
    by (simp add: relay_on_connection_def sock_def)
  from h1 h2 v init_adopts_relay_document [OF h1 h2, of app_admin]
  show ?thesis by (simp add: app_admin_def)
qed

section \<open>Seeding the relay\<close>

text \<open>
  A first \<^verbatim>\<open>SYNC_INITIAL\<close> with an empty \<^verbatim>\<open>spots\<close> leaves the relay's \<^verbatim>\<open>spots\<close> empty, and the
  second \<^verbatim>\<open>SYNC_INITIAL\<close> is accepted: it changes the document.
\<close>

theorem seed_empty_first_counterexample:
  "spots (appState (initial_relay 0)) = [] \<and>
   appState (fst (relay_on_message 2 (sock 2) (SYNC_INITIAL (payload_of doc_local))
      (fst (relay_on_message 1 (sock 1) (SYNC_INITIAL (payload_of doc_no_spots)) (initial_relay 0)))))
   \<noteq> appState (fst (relay_on_message 1 (sock 1) (SYNC_INITIAL (payload_of doc_no_spots)) (initial_relay 0)))"
  by (simp add: initial_relay_def spread_def payload_of_def doc_local_def doc_no_spots_def)

text \<open>
  C4, as the code has it. A relay with empty \<^verbatim>\<open>spots\<close> merges the first \<^verbatim>\<open>SYNC_INITIAL\<close> into
  its document: every key present in the payload replaces the field (a \<^verbatim>\<open>null\<close> image too),
  \<^verbatim>\<open>lastUpdated\<close> stays. If the \<^verbatim>\<open>spots\<close> are non-empty after that, a second \<^verbatim>\<open>SYNC_INITIAL\<close>
  changes nothing and sends nothing.
\<close>

theorem seed_once:
  "spots (appState r) = [] \<Longrightarrow> r1 = fst (relay_on_message n1 w1 (SYNC_INITIAL p1) r) \<Longrightarrow>
   spots (appState r1) = (case spots_opt p1 of None \<Rightarrow> [] | Some s \<Rightarrow> s) \<and>
   spotLocations (appState r1) =
     (case spotLocations_opt p1 of None \<Rightarrow> spotLocations (appState r) | Some l \<Rightarrow> l) \<and>
   zones (appState r1) = (case zones_opt p1 of None \<Rightarrow> zones (appState r) | Some z \<Rightarrow> z) \<and>
   mapImage (appState r1) = (case mapImage_opt p1 of None \<Rightarrow> mapImage (appState r) | Some m \<Rightarrow> m) \<and>
   lastUpdated (appState r1) = lastUpdated (appState r) \<and>
   (spots (appState r1) \<noteq> [] \<longrightarrow> relay_on_message n2 w2 (SYNC_INITIAL p2) r1 = (r1, []))"
  by (simp add: spread_def split: option.splits)

theorem seed_once_witness:
  "spots (appState (initial_relay 0)) = [] \<and>
   appState relay_seeded =
     \<lparr>spots = [spot_C01], spotLocations = [], zones = [],
      mapImage = Some ''data:image/png;base64,AAAA'', lastUpdated = 0\<rparr> \<and>
   spots (appState relay_seeded) \<noteq> [] \<and>
   relay_on_message 2 (sock 2) (SYNC_INITIAL (payload_of doc_no_spots)) relay_seeded =
     (relay_seeded, [])"
proof -
  have h: "spots (appState (initial_relay 0)) = []"
    by (simp add: initial_relay_def)
  have v: "appState relay_seeded =
     \<lparr>spots = [spot_C01], spotLocations = [], zones = [],
      mapImage = Some ''data:image/png;base64,AAAA'', lastUpdated = 0\<rparr>"
    by (simp add: relay_seeded_def initial_relay_def spread_def payload_of_def doc_local_def)
  from h v seed_once [OF h relay_seeded_def, of 2 "sock 2" "payload_of doc_no_spots"]
  show ?thesis by (simp add: payload_of_def doc_local_def initial_relay_def)
qed

section \<open>Persistence fallback\<close>

text \<open>
  A disconnected administrator adds a zone and places a spot: both mutations are applied,
  and nothing is recorded under the zones key or the locations key.
\<close>

theorem offline_zone_not_recorded_counterexample:
  "\<not> isConnected app_admin \<and> \<not> isGuest app_admin \<and>
   zones (handleAddZone zone_A app_admin) = [zone_A] \<and>
   localStorage (handleAddZone zone_A app_admin) ZONES = None \<and>
   spotLocations (handleUpdateLocation ''C-01'' (Some \<lparr>x_loc = 50, y_loc = 50\<rparr>) app_admin) =
     [(''C-01'', \<lparr>x_loc = 50, y_loc = 50\<rparr>)] \<and>
   localStorage (handleUpdateLocation ''C-01'' (Some \<lparr>x_loc = 50, y_loc = 50\<rparr>) app_admin)
     LOCATIONS = None"
  by (simp add: app_admin_def isGuest_def handleAddZone_def handleUpdateLocation_def
        broadcastUpdate_def assign_key_def array_index_def digit_of_def)

lemma localStorage_broadcastUpdate [simp]:
  "localStorage (broadcastUpdate p st) = localStorage st"
  by (simp add: broadcastUpdate_def)

lemma fields_broadcastUpdate [simp]:
  "spots (broadcastUpdate p st) = spots st"
  "spotLocations (broadcastUpdate p st) = spotLocations st"
  "zones (broadcastUpdate p st) = zones st"
  "mapImage (broadcastUpdate p st) = mapImage st"
  by (simp_all add: broadcastUpdate_def)

lemma spots_recorded:
  "dispatch quota ev st = Inr st' \<Longrightarrow> spots st' \<noteq> spots st \<Longrightarrow>
   localStorage st' SPOTS = Some (JSON_spots (spots st'))"
proof (cases "calls_setSpots ev st")
  case True
  assume d: "dispatch quota ev st = Inr st'"
  from d True obtain s1 where h: "handler quota ev st = Inr s1"
    and e: "spotsEffect quota s1 = Some st'"
    by (auto simp add: dispatch_def split: sum.splits option.splits)
  from e show ?thesis
    by (auto simp add: spotsEffect_def setItem_def split: if_splits)
next
  case False
  assume d: "dispatch quota ev st = Inr st'" and n: "spots st' \<noteq> spots st"
  from d False have h: "handler quota ev st = Inr st'"
    by (auto simp add: dispatch_def split: sum.splits)
  have "spots st' = spots st"
  proof (cases ev)
    case (ToggleSpot now i)
    with h False show ?thesis by (auto simp add: handleToggleSpot_def)
  next
    case (Simulation r)
    with h False show ?thesis by (cases r) (auto simp add: handleSimulation_def)
  next
    case (ImageUpload b)
    with h show ?thesis
      by (auto simp add: handleImageUpload_def split: if_splits option.splits)
  next
    case (UpdateLocation i l)
    with h show ?thesis by (auto simp add: handleUpdateLocation_def Let_def split: if_splits)
  next
    case (AddZone z)
    with h show ?thesis by (auto simp add: handleAddZone_def Let_def split: if_splits)
  next
    case (UpdateZone i u)
    with h show ?thesis by (auto simp add: handleUpdateZone_def Let_def split: if_splits)
  next
    case (DeleteZone i)
    with h show ?thesis by (auto simp add: handleDeleteZone_def Let_def split: if_splits)
  next
    case QuickSaveLayout
    with h show ?thesis
      by (auto simp add: handleQuickSaveLayout_def split: if_splits option.splits)
  next
    case (LoadLayoutSnapshot l z)
    with h show ?thesis
      by (auto simp add: handleLoadLayoutSnapshot_def Let_def split: option.splits)
  qed
  with n show ?thesis by simp
qed

lemma layout_keys_only_saved:
  "\<not> saves_layout ev \<Longrightarrow>
   localStorage (state_after (dispatch quota ev st)) LOCATIONS = localStorage st LOCATIONS \<and>
   localStorage (state_after (dispatch quota ev st)) ZONES = localStorage st ZONES"
proof (cases ev)
  case (ToggleSpot now i)
  then show ?thesis
    by (auto simp add: dispatch_def state_after_def handleToggleSpot_def spotsEffect_def
          setItem_def SPOTS_def LOCATIONS_def ZONES_def Let_def)
next
  case (Simulation r)
  then show ?thesis
    by (cases r) (auto simp add: dispatch_def state_after_def handleSimulation_def spotsEffect_def
          setItem_def SPOTS_def LOCATIONS_def ZONES_def Let_def)
next
  case (ImageUpload b)
  then show ?thesis
    by (auto simp add: dispatch_def state_after_def handleImageUpload_def
          setItem_def IMAGE_def LOCATIONS_def ZONES_def)
next
  case (UpdateLocation i l)
  then show ?thesis
    by (auto simp add: dispatch_def state_after_def handleUpdateLocation_def Let_def)
next
  case (AddZone z)
  then show ?thesis by (auto simp add: dispatch_def state_after_def handleAddZone_def Let_def)
next
  case (UpdateZone i u)
  then show ?thesis by (auto simp add: dispatch_def state_after_def handleUpdateZone_def Let_def)
next
  case (DeleteZone i)
  then show ?thesis by (auto simp add: dispatch_def state_after_def handleDeleteZone_def Let_def)
next
  case QuickSaveLayout
  assume "\<not> saves_layout ev"
  with QuickSaveLayout show ?thesis by simp
next
  case (LoadLayoutSnapshot l z)
  assume "\<not> saves_layout ev"
  with LoadLayoutSnapshot show ?thesis by simp
qed


text \<open>
  C5, as the code has it, for a role other than \<^verbatim>\<open>GUEST\<close> and any connection state.
  Every local event that changes \<^verbatim>\<open>spots\<close> leaves the new \<^verbatim>\<open>spots\<close> recorded under the spots
  key, and a toggle or an answered simulation does so whenever the write fits. An image
  upload whose write fits sets \<^verbatim>\<open>mapImage\<close> and records it under the image key; one whose
  write fails changes nothing. Loading a layout snapshot sets \<^verbatim>\<open>spotLocations\<close> and \<^verbatim>\<open>zones\<close>
  and records them under their keys, and a quick save records the current ones, when the
  two writes fit. Updating a location and adding, updating or deleting a zone apply the
  mutation and leave the storage as it was. No local event other than a snapshot load or
  a quick save changes what is stored under the locations key or the zones key.
\<close>

theorem persistence_of_mutations:
  "\<not> isGuest st \<Longrightarrow>
   (\<forall>ev st'. dispatch quota ev st = Inr st' \<and> spots st' \<noteq> spots st \<longrightarrow>
      localStorage st' SPOTS = Some (JSON_spots (spots st'))) \<and>
   (quota SPOTS (JSON_spots (spots (handleToggleSpot now i st))) \<longrightarrow>
      (\<exists>st'. dispatch quota (ToggleSpot now i) st = Inr st' \<and>
             spots st' = spots (handleToggleSpot now i st) \<and>
             localStorage st' SPOTS = Some (JSON_spots (spots st')))) \<and>
   (quota SPOTS (JSON_spots (simulated statusMap now (spots st))) \<longrightarrow>
      (\<exists>st'. dispatch quota (Simulation (Answer statusMap now)) st = Inr st' \<and>
             spots st' = simulated statusMap now (spots st) \<and>
             localStorage st' SPOTS = Some (JSON_spots (spots st')))) \<and>
   (quota IMAGE (Raw base64String) \<longrightarrow>
      (\<exists>st'. dispatch quota (ImageUpload base64String) st = Inr st' \<and>
             mapImage st' = Some base64String \<and>
             localStorage st' IMAGE = Some (Raw base64String))) \<and>
   (\<not> quota IMAGE (Raw base64String) \<longrightarrow>
      dispatch quota (ImageUpload base64String) st = Inr st) \<and>
   (quota LOCATIONS (JSON_locations locations) \<and> quota ZONES (JSON_zones loadedZones) \<longrightarrow>
      (\<exists>st'. dispatch quota (LoadLayoutSnapshot locations loadedZones) st = Inr st' \<and>
             spotLocations st' = locations \<and> zones st' = loadedZones \<and>
             localStorage st' LOCATIONS = Some (JSON_locations locations) \<and>
             localStorage st' ZONES = Some (JSON_zones loadedZones))) \<and>
   (quota LOCATIONS (JSON_locations (spotLocations st)) \<and>
    quota ZONES (JSON_zones (zones st)) \<longrightarrow>
      (\<exists>st'. dispatch quota QuickSaveLayout st = Inr st' \<and>
             spotLocations st' = spotLocations st \<and> zones st' = zones st \<and>
             localStorage st' LOCATIONS = Some (JSON_locations (spotLocations st)) \<and>
             localStorage st' ZONES = Some (JSON_zones (zones st)))) \<and>
   (\<exists>st'. dispatch quota (UpdateLocation i location) st = Inr st' \<and>
          spotLocations st' =
            (case location of None \<Rightarrow> delete_key i (spotLocations st)
                            | Some l \<Rightarrow> assign_key i l (spotLocations st)) \<and>
          localStorage st' = localStorage st) \<and>
   (\<exists>st'. dispatch quota (AddZone zone) st = Inr st' \<and> zones st' = zones st @ [zone] \<and>
          localStorage st' = localStorage st) \<and>
   (\<exists>st'. dispatch quota (UpdateZone zi updates) st = Inr st' \<and>
          zones st' = map (\<lambda>z. if id_zone z = zi then spread_zone z updates else z) (zones st) \<and>
          localStorage st' = localStorage st) \<and>
   (\<exists>st'. dispatch quota (DeleteZone zi) st = Inr st' \<and>
          zones st' = filter (\<lambda>z. id_zone z \<noteq> zi) (zones st) \<and>
          localStorage st' = localStorage st) \<and>
   (\<forall>ev. \<not> saves_layout ev \<longrightarrow>
      localStorage (state_after (dispatch quota ev st)) LOCATIONS = localStorage st LOCATIONS \<and>
      localStorage (state_after (dispatch quota ev st)) ZONES = localStorage st ZONES)"
proof -
  assume g: "\<not> isGuest st"
  have a: "\<forall>ev st'. dispatch quota ev st = Inr st' \<and> spots st' \<noteq> spots st \<longrightarrow>
      localStorage st' SPOTS = Some (JSON_spots (spots st'))"
    using spots_recorded by blast
  have b: "\<exists>st'. dispatch quota (ToggleSpot now i) st = Inr st' \<and>
             spots st' = spots (handleToggleSpot now i st) \<and>
             localStorage st' SPOTS = Some (JSON_spots (spots st'))"
    if "quota SPOTS (JSON_spots (spots (handleToggleSpot now i st)))"
    using g that by (simp add: dispatch_def spotsEffect_def setItem_def)
  have c: "\<exists>st'. dispatch quota (Simulation (Answer statusMap now)) st = Inr st' \<and>
             spots st' = simulated statusMap now (spots st) \<and>
             localStorage st' SPOTS = Some (JSON_spots (spots st'))"
    if "quota SPOTS (JSON_spots (simulated statusMap now (spots st)))"
    using that by (simp add: dispatch_def spotsEffect_def setItem_def handleSimulation_def Let_def)
  have d: "\<exists>st'. dispatch quota (ImageUpload base64String) st = Inr st' \<and>
             mapImage st' = Some base64String \<and>
             localStorage st' IMAGE = Some (Raw base64String)"
    if "quota IMAGE (Raw base64String)"
    using g that by (simp add: dispatch_def handleImageUpload_def setItem_def)
  have e: "dispatch quota (ImageUpload base64String) st = Inr st"
    if "\<not> quota IMAGE (Raw base64String)"
    using that by (simp add: dispatch_def handleImageUpload_def setItem_def)
  have f: "\<exists>st'. dispatch quota (LoadLayoutSnapshot locations loadedZones) st = Inr st' \<and>
             spotLocations st' = locations \<and> zones st' = loadedZones \<and>
             localStorage st' LOCATIONS = Some (JSON_locations locations) \<and>
             localStorage st' ZONES = Some (JSON_zones loadedZones)"
    if "quota LOCATIONS (JSON_locations locations)" "quota ZONES (JSON_zones loadedZones)"
    using that by (simp add: dispatch_def handleLoadLayoutSnapshot_def setItem_def Let_def
          LOCATIONS_def ZONES_def)
  have h: "\<exists>st'. dispatch quota QuickSaveLayout st = Inr st' \<and>
             spotLocations st' = spotLocations st \<and> zones st' = zones st \<and>
             localStorage st' LOCATIONS = Some (JSON_locations (spotLocations st)) \<and>
             localStorage st' ZONES = Some (JSON_zones (zones st))"
    if "quota LOCATIONS (JSON_locations (spotLocations st))" "quota ZONES (JSON_zones (zones st))"
    using g that by (simp add: dispatch_def handleQuickSaveLayout_def setItem_def
          LOCATIONS_def ZONES_def)
  have k: "\<exists>st'. dispatch quota (UpdateLocation i location) st = Inr st' \<and>
          spotLocations st' =
            (case location of None \<Rightarrow> delete_key i (spotLocations st)
                            | Some l \<Rightarrow> assign_key i l (spotLocations st)) \<and>
          localStorage st' = localStorage st"
    using g by (simp add: dispatch_def handleUpdateLocation_def Let_def)
  have l: "\<exists>st'. dispatch quota (AddZone zone) st = Inr st' \<and> zones st' = zones st @ [zone] \<and>
          localStorage st' = localStorage st"
    using g by (simp add: dispatch_def handleAddZone_def Let_def)
  have m: "\<exists>st'. dispatch quota (UpdateZone zi updates) st = Inr st' \<and>
          zones st' = map (\<lambda>z. if id_zone z = zi then spread_zone z updates else z) (zones st) \<and>
          localStorage st' = localStorage st"
    using g by (simp add: dispatch_def handleUpdateZone_def Let_def)
  have n: "\<exists>st'. dispatch quota (DeleteZone zi) st = Inr st' \<and>
          zones st' = filter (\<lambda>z. id_zone z \<noteq> zi) (zones st) \<and>
          localStorage st' = localStorage st"
    using g by (simp add: dispatch_def handleDeleteZone_def Let_def)
  have o: "\<forall>ev. \<not> saves_layout ev \<longrightarrow>
      localStorage (state_after (dispatch quota ev st)) LOCATIONS = localStorage st LOCATIONS \<and>
      localStorage (state_after (dispatch quota ev st)) ZONES = localStorage st ZONES"
    using layout_keys_only_saved by blast
  show ?thesis
    apply (intro conjI impI)
    using a b c d e f h k l m n o by (blast+)
qed

theorem persistence_of_mutations_witness:
  "\<not> isGuest app_admin \<and> \<not> isConnected app_admin \<and>
   zones (state_after (dispatch (\<lambda>k v. True) (AddZone zone_A) app_admin)) = [zone_A] \<and>
   localStorage (state_after (dispatch (\<lambda>k v. True) (AddZone zone_A) app_admin)) =
     localStorage app_admin \<and>
   localStorage (state_after (dispatch (\<lambda>k v. True) (ToggleSpot 7 ''C-01'') app_admin)) SPOTS =
     Some (JSON_spots [spot_C01\<lparr>status := OCCUPIED, lastUpdated_spot := Some 7\<rparr>]) \<and>
   localStorage (state_after (dispatch (\<lambda>k v. True) (LoadLayoutSnapshot [] [zone_A]) app_admin))
     ZONES = Some (JSON_zones [zone_A]) \<and>
   localStorage (state_after (dispatch (\<lambda>k v. True) QuickSaveLayout
      (handleAddZone zone_A app_admin))) ZONES = Some (JSON_zones [zone_A])"
proof -
  have g: "\<not> isGuest app_admin" "\<not> isGuest (handleAddZone zone_A app_admin)"
    by (simp_all add: isGuest_def handleAddZone_def app_admin_def broadcastUpdate_def Let_def)
  have c: "\<not> isConnected app_admin"
    by (simp add: app_admin_def)
  have z: "zones app_admin = []" "zones (handleAddZone zone_A app_admin) = [zone_A]"
    by (simp_all add: isGuest_def handleAddZone_def app_admin_def Let_def)
  have t: "spots (handleToggleSpot 7 ''C-01'' app_admin) =
      [spot_C01\<lparr>status := OCCUPIED, lastUpdated_spot := Some 7\<rparr>]"
    by (simp add: isGuest_def handleToggleSpot_def app_admin_def spot_C01_def Let_def)
  note T1 = persistence_of_mutations [where st = app_admin and quota = "\<lambda>k v. True" and now = 7
      and i = "''C-01''" and statusMap = Map.empty and base64String = "''x''"
      and locations = "[]" and loadedZones = "[zone_A]" and location = None and zone = zone_A
      and zi = "''zone-a''" and updates = no_updates, OF g(1)]
  note T2 = persistence_of_mutations [where st = "handleAddZone zone_A app_admin"
      and quota = "\<lambda>k v. True" and now = 7
      and i = "''C-01''" and statusMap = Map.empty and base64String = "''x''"
      and locations = "[]" and loadedZones = "[zone_A]" and location = None and zone = zone_A
      and zi = "''zone-a''" and updates = no_updates, OF g(2)]
  from T1 have toggle: "\<exists>st'. dispatch (\<lambda>k v. True) (ToggleSpot 7 ''C-01'') app_admin = Inr st' \<and>
      spots st' = spots (handleToggleSpot 7 ''C-01'' app_admin) \<and>
      localStorage st' SPOTS = Some (JSON_spots (spots st'))"
    by simp
  from T1 have load: "\<exists>st'. dispatch (\<lambda>k v. True) (LoadLayoutSnapshot [] [zone_A]) app_admin = Inr st' \<and>
      spotLocations st' = [] \<and> zones st' = [zone_A] \<and>
      localStorage st' LOCATIONS = Some (JSON_locations []) \<and>
      localStorage st' ZONES = Some (JSON_zones [zone_A])"
    by simp
  from T1 have add: "\<exists>st'. dispatch (\<lambda>k v. True) (AddZone zone_A) app_admin = Inr st' \<and>
      zones st' = zones app_admin @ [zone_A] \<and> localStorage st' = localStorage app_admin"
    by simp
  from T2 have save: "\<exists>st'. dispatch (\<lambda>k v. True) QuickSaveLayout (handleAddZone zone_A app_admin) =
        Inr st' \<and>
      spotLocations st' = spotLocations (handleAddZone zone_A app_admin) \<and>
      zones st' = zones (handleAddZone zone_A app_admin) \<and>
      localStorage st' LOCATIONS =
        Some (JSON_locations (spotLocations (handleAddZone zone_A app_admin))) \<and>
      localStorage st' ZONES = Some (JSON_zones (zones (handleAddZone zone_A app_admin)))"
    by simp
  from toggle t have 1: "localStorage (state_after (dispatch (\<lambda>k v. True) (ToggleSpot 7 ''C-01'')
      app_admin)) SPOTS =
     Some (JSON_spots [spot_C01\<lparr>status := OCCUPIED, lastUpdated_spot := Some 7\<rparr>])"
    by (auto simp add: state_after_def)
  from load have 2: "localStorage (state_after (dispatch (\<lambda>k v. True)
      (LoadLayoutSnapshot [] [zone_A]) app_admin)) ZONES = Some (JSON_zones [zone_A])"
    by (auto simp add: state_after_def)
  from add z have 3: "zones (state_after (dispatch (\<lambda>k v. True) (AddZone zone_A) app_admin)) =
      [zone_A] \<and>
    localStorage (state_after (dispatch (\<lambda>k v. True) (AddZone zone_A) app_admin)) =
      localStorage app_admin"
    by (auto simp add: state_after_def)
  from save z have 4: "localStorage (state_after (dispatch (\<lambda>k v. True) QuickSaveLayout
      (handleAddZone zone_A app_admin))) ZONES = Some (JSON_zones [zone_A])"
    by (auto simp add: state_after_def)
  from g(1) c 1 2 3 4 show ?thesis by simp
qed

section \<open>The seed sent by a client\<close>

text \<open>
  C3. The client of \<open>app_toggled_offline\<close> has toggled its spot since it mounted. On an
  \<^verbatim>\<open>INIT\<close> with empty \<^verbatim>\<open>spots\<close> it sends \<^verbatim>\<open>SYNC_INITIAL\<close> with the spot as it was at mount
  (free), not with its current state (occupied).
\<close>

theorem sync_initial_sends_mount_values:
  "spots app_toggled_offline = [spot_C01\<lparr>status := OCCUPIED, lastUpdated_spot := Some 7\<rparr>] \<and>
   sent (ws_onmessage (INIT (payload_of (appState (initial_relay 0)))) app_toggled_offline) =
     [SYNC_INITIAL (payload_of \<lparr>spots = [spot_C01], spotLocations = [], zones = [],
                                mapImage = None\<rparr>)] \<and>
   sent (ws_onmessage (INIT (payload_of (appState (initial_relay 0)))) app_toggled_offline) \<noteq>
     [SYNC_INITIAL (payload_of app_toggled_offline)]"
  by (simp add: app_toggled_offline_def ws_onopen_def handleToggleSpot_def setUserRole_def
        mount_def isGuest_def broadcastUpdate_def initial_relay_def payload_of_def
        loadSpots_def loadLocations_def loadZones_def loadImage_def spot_C01_def Let_def)

end
